theory Spec2Isabelle
  imports Main "HOL-Library.AList"
begin

section \<open>The todo server: JSON values, the file store, the validator, the handlers\<close>

text \<open>
  The program is \<^verbatim>\<open>week-2/Week-2-Assignments/02-nodejs/todoServer.js\<close>: an Express
  application that keeps a list of todo items in one JSON file. Each definition below
  carries the name of the JavaScript function it embeds.
\<close>

subsection \<open>JSON values\<close>

text \<open>
  A JavaScript object is an association list in the order of its own properties; a
  JavaScript object never has one key twice, so the lists that stand for objects have
  distinct keys (the theorems say so where a spread copies one). The program never
  computes with a number, so integers stand for them; a number that
  \<^verbatim>\<open>JSON.stringify\<close> does not write back as it was read (a literal beyond the range
  of a double, which is read as an infinity and written as \<^verbatim>\<open>null\<close>) has no
  counterpart here.
\<close>

datatype json =
    JNull
  | JBool bool
  | JNum int
  | JStr string
  | JArr "json list"
  | JObj "(string \<times> json) list"

type_synonym obj = "(string \<times> json) list"

text \<open>
  Reading a property \<^verbatim>\<open>v.k\<close> where \<^verbatim>\<open>k\<close> is none of the built-in names: an object
  gives the value or \<^verbatim>\<open>undefined\<close> (here \<open>None\<close>), \<^verbatim>\<open>null\<close> throws a
  TypeError, every other value gives \<^verbatim>\<open>undefined\<close>.
\<close>

datatype error = StorageError | TypeError | TodoDoesNotExist

fun get_prop :: "json \<Rightarrow> string \<Rightarrow> error + json option" where
  "get_prop JNull k = Inl TypeError"
| "get_prop (JObj kv) k = Inr (map_of kv k)"
| "get_prop v k = Inr None"

text \<open>
  The object spread \<^verbatim>\<open>{...acc, ...v}\<close>: every own property of \<^verbatim>\<open>v\<close>, in order, is
  assigned to the object under construction: an existing key keeps its place and takes
  the new value, a new key goes to the end. Spreading \<^verbatim>\<open>null\<close>, a boolean or a number
  adds nothing. (An array or a string would add index-named properties; neither reaches
  a spread of this program: stored records that matched on \<^verbatim>\<open>id\<close> are objects, and
  a request body reaches a handler only after \<^verbatim>\<open>Joi.object\<close> has accepted it.)
\<close>

fun spread_into :: "obj \<Rightarrow> json \<Rightarrow> obj" where
  "spread_into acc (JObj kv) = foldl (\<lambda>a (k, v). AList.update k v a) acc kv"
| "spread_into acc v = acc"

definition spread :: "json list \<Rightarrow> json" where
  "spread vs = JObj (foldl spread_into [] vs)"

text \<open>\<^verbatim>\<open>Array.prototype.splice(start, deleteCount, ...items)\<close>, returning the array after the call.\<close>

definition splice :: "int \<Rightarrow> nat \<Rightarrow> 'a list \<Rightarrow> 'a list \<Rightarrow> 'a list" where
  "splice start deleteCount items xs =
     (let len = int (length xs);
          s = nat (if start < 0 then max (len + start) 0 else min start len);
          d = min deleteCount (length xs - s)
      in take s xs @ items @ drop (s + d) xs)"

subsection \<open>The file\<close>

text \<open>
  \<open>doc\<close> is what \<^verbatim>\<open>JSON.parse\<close> makes of \<^verbatim>\<open>todos.json\<close>; \<open>None\<close> when the file is
  missing, unreadable or not valid JSON. \<open>writable\<close> says whether \<^verbatim>\<open>fs.writeFile\<close>
  succeeds. What \<^verbatim>\<open>JSON.stringify\<close> writes, \<^verbatim>\<open>JSON.parse\<close> reads back.
\<close>

record store =
  doc :: "json option"
  writable :: bool

definition find_todos :: "store \<Rightarrow> error + json" where
  "find_todos s = (case doc s of None \<Rightarrow> Inl StorageError | Some v \<Rightarrow> Inr v)"

definition writeFile :: "store \<Rightarrow> json \<Rightarrow> error + store" where
  "writeFile s v = (if writable s then Inr (s\<lparr>doc := Some v\<rparr>) else Inl StorageError)"

text \<open>The callback \<^verbatim>\<open>(todo) => todo.id === id\<close>, where \<^verbatim>\<open>id\<close> is a string.\<close>

definition id_is :: "string \<Rightarrow> json \<Rightarrow> error + bool" where
  "id_is i todo = (case get_prop todo ''id'' of Inl e \<Rightarrow> Inl e | Inr v \<Rightarrow> Inr (v = Some (JStr i)))"

text \<open>\<^verbatim>\<open>todos.filter(cb)\<close> visits every element; the first exception ends it.\<close>

fun filter_id :: "string \<Rightarrow> json list \<Rightarrow> error + json list" where
  "filter_id i [] = Inr []"
| "filter_id i (t # ts) =
     (case id_is i t of
        Inl e \<Rightarrow> Inl e
      | Inr b \<Rightarrow> (case filter_id i ts of
                    Inl e \<Rightarrow> Inl e
                  | Inr r \<Rightarrow> Inr (if b then t # r else r)))"

text \<open>\<^verbatim>\<open>todos.findIndex(cb)\<close> stops at the first match and gives \<open>-1\<close> when there is none.\<close>

fun findIndex_id :: "string \<Rightarrow> json list \<Rightarrow> error + int" where
  "findIndex_id i [] = Inr (- 1)"
| "findIndex_id i (t # ts) =
     (case id_is i t of
        Inl e \<Rightarrow> Inl e
      | Inr True \<Rightarrow> Inr 0
      | Inr False \<Rightarrow> (case findIndex_id i ts of
                        Inl e \<Rightarrow> Inl e
                      | Inr n \<Rightarrow> Inr (if n < 0 then - 1 else n + 1)))"

text \<open>
  \<open>findById\<close>: \<^verbatim>\<open>todos.filter(...)[0] ?? null\<close>; \<open>None\<close> is \<^verbatim>\<open>null\<close>. A document that
  is not an array has no \<^verbatim>\<open>filter\<close> (or \<^verbatim>\<open>push\<close>, \<^verbatim>\<open>findIndex\<close>) to call: TypeError.
\<close>

definition findById :: "store \<Rightarrow> string \<Rightarrow> error + json option" where
  "findById s i =
     (case find_todos s of
        Inl e \<Rightarrow> Inl e
      | Inr (JArr todos) \<Rightarrow>
          (case filter_id i todos of
             Inl e \<Rightarrow> Inl e
           | Inr [] \<Rightarrow> Inr None
           | Inr (t # _) \<Rightarrow> Inr (Some t))
      | Inr _ \<Rightarrow> Inl TypeError)"

definition save :: "store \<Rightarrow> json \<Rightarrow> error + (json \<times> store)" where
  "save s data =
     (case find_todos s of
        Inl e \<Rightarrow> Inl e
      | Inr (JArr todos) \<Rightarrow>
          (case writeFile s (JArr (todos @ [data])) of
             Inl e \<Rightarrow> Inl e
           | Inr s' \<Rightarrow> Inr (data, s'))
      | Inr _ \<Rightarrow> Inl TypeError)"

definition updateByIdAndUpdate :: "store \<Rightarrow> string \<Rightarrow> json \<Rightarrow> error + (json \<times> store)" where
  "updateByIdAndUpdate s todoId update =
     (case findById s todoId of
        Inl e \<Rightarrow> Inl e
      | Inr None \<Rightarrow> Inl TodoDoesNotExist
      | Inr (Some todo) \<Rightarrow>
          (let update' = spread [todo, update] in
           case find_todos s of
             Inl e \<Rightarrow> Inl e
           | Inr (JArr todos) \<Rightarrow>
               (case findIndex_id todoId todos of
                  Inl e \<Rightarrow> Inl e
                | Inr updateIndex \<Rightarrow>
                    (case writeFile s (JArr (splice updateIndex 1 [update'] todos)) of
                       Inl e \<Rightarrow> Inl e
                     | Inr s' \<Rightarrow> Inr (update', s')))
           | Inr _ \<Rightarrow> Inl TypeError))"

definition deleteById :: "store \<Rightarrow> string \<Rightarrow> error + store" where
  "deleteById s todoId =
     (case findById s todoId of
        Inl e \<Rightarrow> Inl e
      | Inr None \<Rightarrow> Inl TodoDoesNotExist
      | Inr (Some todo) \<Rightarrow>
          (case find_todos s of
             Inl e \<Rightarrow> Inl e
           | Inr (JArr todos) \<Rightarrow>
               (case findIndex_id todoId todos of
                  Inl e \<Rightarrow> Inl e
                | Inr deleteIndex \<Rightarrow> writeFile s (JArr (splice deleteIndex 1 [] todos)))
           | Inr _ \<Rightarrow> Inl TypeError))"

subsection \<open>The schemas and Joi's validation\<close>

text \<open>
  \<^verbatim>\<open>Joi.object({...})\<close> with Joi's default preferences: \<^verbatim>\<open>abortEarly\<close> (the first
  error ends the validation), \<^verbatim>\<open>convert\<close> (a boolean key accepts the strings
  \<^verbatim>\<open>true\<close> and \<^verbatim>\<open>false\<close> in any case), no \<^verbatim>\<open>allowUnknown\<close> (a key that the schema
  does not name is an error). The keys of the schema are checked in the order of their
  declaration, then the keys of the value that the schema does not name, in the order
  of the value. \<^verbatim>\<open>Joi.string()\<close> refuses the empty string.

  Joi validates a shallow copy of the value, made with \<^verbatim>\<open>Object.assign\<close>. Assigning
  the key \<^verbatim>\<open>__proto__\<close> defines no property: it makes the assigned object the
  prototype of the copy (and does nothing for a string, a number or a boolean). So the
  copy has the own properties of the value but \<^verbatim>\<open>__proto__\<close>, and \<^verbatim>\<open>copy[key]\<close>
  reads an own property or else a property of the object under \<^verbatim>\<open>__proto__\<close>.
  (The keys read are those of the two schemas, none of which is a built-in name.)
\<close>

definition own_of_copy :: "obj \<Rightarrow> obj" where
  "own_of_copy kv = filter (\<lambda>p. fst p \<noteq> ''__proto__'') kv"

definition inherited_of_copy :: "obj \<Rightarrow> obj" where
  "inherited_of_copy kv = (case map_of kv ''__proto__'' of Some (JObj p) \<Rightarrow> p | _ \<Rightarrow> [])"

definition read_key :: "obj \<Rightarrow> obj \<Rightarrow> string \<Rightarrow> json option" where
  "read_key own inherited k =
     (case map_of own k of Some v \<Rightarrow> Some v | None \<Rightarrow> map_of inherited k)"

datatype joi_type = JoiString | JoiBoolean

datatype key_schema =
  KeySchema (key: string) (kind: joi_type) (required: bool) (default_value: "json option")

type_synonym schema = "key_schema list"

definition todoSchema :: schema where
  "todoSchema =
     [KeySchema ''title'' JoiString True None,
      KeySchema ''completed'' JoiBoolean False (Some (JBool False)),
      KeySchema ''description'' JoiString True None]"

definition updateTodoSchema :: schema where
  "updateTodoSchema =
     [KeySchema ''title'' JoiString False None,
      KeySchema ''completed'' JoiBoolean False None,
      KeySchema ''description'' JoiString False None]"

datatype joi_error =
    ObjectBase
  | AnyRequired string
  | StringBase string
  | StringEmpty string
  | BooleanBase string
  | ObjectUnknown string

text \<open>
  The label of a key in a message is the key between double quotes; for the empty key,
  as for the value as a whole, Joi writes \<^verbatim>\<open>value\<close>.
\<close>

definition label :: "string \<Rightarrow> string" where
  "label k = CHR 0x22 # (if k = [] then ''value'' else k) @ [CHR 0x22]"

fun message :: "joi_error \<Rightarrow> string" where
  "message ObjectBase = label ''value'' @ '' must be of type object''"
| "message (AnyRequired k) = label k @ '' is required''"
| "message (StringBase k) = label k @ '' must be a string''"
| "message (StringEmpty k) = label k @ '' is not allowed to be empty''"
| "message (BooleanBase k) = label k @ '' must be a boolean''"
| "message (ObjectUnknown k) = label k @ '' is not allowed''"

definition to_lower :: "char \<Rightarrow> char" where
  "to_lower c =
     (let n = (of_char c :: nat) in if 65 \<le> n \<and> n \<le> 90 then char_of (n + 32) else c)"

text \<open>
  One key whose value is present: the error, or the value after conversion.
\<close>

fun validate_item :: "joi_type \<Rightarrow> string \<Rightarrow> json \<Rightarrow> joi_error + json" where
  "validate_item JoiString k (JStr s) = (if s = [] then Inl (StringEmpty k) else Inr (JStr s))"
| "validate_item JoiString k v = Inl (StringBase k)"
| "validate_item JoiBoolean k (JBool b) = Inr (JBool b)"
| "validate_item JoiBoolean k (JStr s) =
     (if map to_lower s = ''true'' then Inr (JBool True)
      else if map to_lower s = ''false'' then Inr (JBool False)
      else Inl (BooleanBase k))"
| "validate_item JoiBoolean k v = Inl (BooleanBase k)"

text \<open>One key of the schema against \<^verbatim>\<open>value[key]\<close>; \<open>Inr None\<close> leaves the key absent.\<close>

definition validate_key :: "key_schema \<Rightarrow> json option \<Rightarrow> joi_error + json option" where
  "validate_key c item =
     (case item of
        None \<Rightarrow> if required c then Inl (AnyRequired (key c)) else Inr (default_value c)
      | Some v \<Rightarrow> (case validate_item (kind c) (key c) v of
                    Inl e \<Rightarrow> Inl e
                  | Inr v' \<Rightarrow> Inr (Some v')))"

text \<open>
  The keys of the schema, in order, over Joi's copy of the value (its own properties,
  and those it inherits): the first error ends the loop, a converted or default value
  is written into the copy.
\<close>

fun validate_keys :: "schema \<Rightarrow> obj \<Rightarrow> obj \<Rightarrow> joi_error option \<times> obj" where
  "validate_keys [] inherited own = (None, own)"
| "validate_keys (c # cs) inherited own =
     (case validate_key c (read_key own inherited (key c)) of
        Inl e \<Rightarrow> (Some e, own)
      | Inr None \<Rightarrow> validate_keys cs inherited own
      | Inr (Some v) \<Rightarrow> validate_keys cs inherited (AList.update (key c) v own))"

text \<open>The own keys of the copy that the schema does not name, as they were before the loop.\<close>

definition unknown_keys :: "schema \<Rightarrow> obj \<Rightarrow> string list" where
  "unknown_keys sch own = filter (\<lambda>k. k \<notin> set (map key sch)) (map fst own)"

text \<open>
  \<^verbatim>\<open>schema.validate(body)\<close> returns \<^verbatim>\<open>{error, value}\<close>: the pair below, where the
  value is the copy (its own properties). The value it was given is never changed:
  defaults and conversions are in the returned \<^verbatim>\<open>value\<close> only. A request body is
  an object or an array (\<^verbatim>\<open>bodyParser.json()\<close> parses nothing else, and gives
  \<^verbatim>\<open>{}\<close> when there is no JSON body); what is not an object is refused as a whole.
\<close>

fun validate :: "schema \<Rightarrow> json \<Rightarrow> joi_error option \<times> json" where
  "validate sch (JObj kv) =
     (case validate_keys sch (inherited_of_copy kv) (own_of_copy kv) of
        (Some e, own') \<Rightarrow> (Some e, JObj own')
      | (None, own') \<Rightarrow>
          (case unknown_keys sch (own_of_copy kv) of
             [] \<Rightarrow> (None, JObj own')
           | k # _ \<Rightarrow> (Some (ObjectUnknown k), JObj own')))"
| "validate sch v = (Some ObjectBase, v)"

subsection \<open>Responses, the middleware and the controllers\<close>

text \<open>
  A response is the call made on \<^verbatim>\<open>res\<close>: \<^verbatim>\<open>res.send(v)\<close>, \<^verbatim>\<open>res.sendStatus(n)\<close> or
  \<^verbatim>\<open>res.status(n).json(v)\<close>. A controller is an \<^verbatim>\<open>async\<close> function: it either
  responds, or its promise is rejected with the exception that nothing caught.
\<close>

datatype response = Send json | SendStatus nat | StatusJson nat json

datatype outcome = Responded response | Rejected error

text \<open>\<open>validateBody\<close>: \<open>Some\<close> is the response of the middleware, \<open>None\<close> is \<^verbatim>\<open>next()\<close>.\<close>

definition validateBody :: "schema \<Rightarrow> json \<Rightarrow> response option" where
  "validateBody sch body =
     (case fst (validate sch body) of
        Some e \<Rightarrow> Some (StatusJson 400 (JObj [(''error'', JStr (message e))]))
      | None \<Rightarrow> None)"

definition getAllTodos :: "store \<Rightarrow> outcome" where
  "getAllTodos s =
     (case find_todos s of Inl e \<Rightarrow> Rejected e | Inr todos \<Rightarrow> Responded (Send todos))"

definition getTodoById :: "store \<Rightarrow> string \<Rightarrow> outcome" where
  "getTodoById s todoId =
     (case findById s todoId of
        Inl e \<Rightarrow> Rejected e
      | Inr (Some todo) \<Rightarrow> Responded (Send todo)
      | Inr None \<Rightarrow> Responded (SendStatus 404))"

text \<open>\<open>uuid\<close> is what \<^verbatim>\<open>uuidv4()\<close> returns in this call.\<close>

definition createTodo :: "store \<Rightarrow> string \<Rightarrow> json \<Rightarrow> outcome \<times> store" where
  "createTodo s uuid todo =
     (case save s (spread [JObj [(''id'', JStr uuid)], todo]) of
        Inl e \<Rightarrow> (Rejected e, s)
      | Inr (newTodo, s') \<Rightarrow> (Responded (StatusJson 201 (spread [newTodo])), s'))"

text \<open>\<^verbatim>\<open>{ id: updatedTodo.id }\<close>: \<^verbatim>\<open>JSON.stringify\<close> leaves an undefined property out.\<close>

definition id_only :: "json \<Rightarrow> json" where
  "id_only todo =
     JObj (case get_prop todo ''id'' of Inr (Some v) \<Rightarrow> [(''id'', v)] | _ \<Rightarrow> [])"

definition updateTodo :: "store \<Rightarrow> string \<Rightarrow> json \<Rightarrow> outcome \<times> store" where
  "updateTodo s todoId update =
     (case updateByIdAndUpdate s todoId update of
        Inr (updatedTodo, s') \<Rightarrow> (Responded (StatusJson 200 (id_only updatedTodo)), s')
      | Inl err \<Rightarrow> (Responded (SendStatus 404), s))"

definition deleteTodo :: "store \<Rightarrow> string \<Rightarrow> outcome \<times> store" where
  "deleteTodo s todoId =
     (case deleteById s todoId of
        Inr s' \<Rightarrow> (Responded (SendStatus 200), s')
      | Inl err \<Rightarrow> (Responded (SendStatus 404), s))"

subsection \<open>The routes\<close>

definition get_todos :: "store \<Rightarrow> outcome" where
  "get_todos s = getAllTodos s"

definition get_todo :: "store \<Rightarrow> string \<Rightarrow> outcome" where
  "get_todo s todoId = getTodoById s todoId"

definition post_todos :: "store \<Rightarrow> string \<Rightarrow> json \<Rightarrow> outcome \<times> store" where
  "post_todos s uuid body =
     (case validateBody todoSchema body of
        Some r \<Rightarrow> (Responded r, s)
      | None \<Rightarrow> createTodo s uuid body)"

definition put_todo :: "store \<Rightarrow> string \<Rightarrow> json \<Rightarrow> outcome \<times> store" where
  "put_todo s todoId body =
     (case validateBody updateTodoSchema body of
        Some r \<Rightarrow> (Responded r, s)
      | None \<Rightarrow> updateTodo s todoId body)"

definition delete_todo :: "store \<Rightarrow> string \<Rightarrow> outcome \<times> store" where
  "delete_todo s todoId = deleteTodo s todoId"

subsection \<open>Notions used to state the properties\<close>

text \<open>The identifier of a stored record, when it is an object whose \<^verbatim>\<open>id\<close> is a string.\<close>

fun todo_id :: "json \<Rightarrow> string option" where
  "todo_id (JObj kv) = (case map_of kv ''id'' of Some (JStr x) \<Rightarrow> Some x | _ \<Rightarrow> None)"
| "todo_id v = None"

text \<open>The list stands for a JavaScript object: no key occurs twice.\<close>

fun distinct_keys :: "json \<Rightarrow> bool" where
  "distinct_keys (JObj kv) = distinct (map fst kv)"
| "distinct_keys v = True"

text \<open>
  What Joi reads under a key of a request body: the own property, or else the property
  of the object under \<^verbatim>\<open>__proto__\<close>.
\<close>

definition seen :: "obj \<Rightarrow> string \<Rightarrow> json option" where
  "seen kv k = read_key (own_of_copy kv) (inherited_of_copy kv) k"

fun is_string :: "json option \<Rightarrow> bool" where
  "is_string (Some (JStr s)) = True"
| "is_string v = False"

fun is_boolean :: "json option \<Rightarrow> bool" where
  "is_boolean (Some (JBool b)) = True"
| "is_boolean (Some (JStr s)) = (map to_lower s = ''true'' \<or> map to_lower s = ''false'')"
| "is_boolean v = False"

text \<open>
  The two schemas, written out: the text that names the first constraint that a body
  violates, or \<open>None\<close> for a body that violates none. The constraints come in the
  order title, completed, description, then the first key that is none of the three
  (nor \<^verbatim>\<open>__proto__\<close>). With \<open>create\<close> the title and the description are required
  (the create schema); without, they are optional (the update schema). For Joi the
  strings \<^verbatim>\<open>true\<close> and \<^verbatim>\<open>false\<close>, in any case, are booleans.
\<close>

definition rejection :: "bool \<Rightarrow> json \<Rightarrow> string option" where
  \<open>rejection create body =
     (case body of
        JObj kv \<Rightarrow>
          (let title = seen kv ''title'';
               completed = seen kv ''completed'';
               description = seen kv ''description'';
               others = filter (\<lambda>k. k \<noteq> ''title'' \<and> k \<noteq> ''completed'' \<and>
                          k \<noteq> ''description'' \<and> k \<noteq> ''__proto__'') (map fst kv)
           in if title = None \<and> create then Some ''"title" is required''
              else if title \<noteq> None \<and> \<not> is_string title then Some ''"title" must be a string''
              else if title = Some (JStr []) then Some ''"title" is not allowed to be empty''
              else if completed \<noteq> None \<and> \<not> is_boolean completed
                then Some ''"completed" must be a boolean''
              else if description = None \<and> create then Some ''"description" is required''
              else if description \<noteq> None \<and> \<not> is_string description
                then Some ''"description" must be a string''
              else if description = Some (JStr [])
                then Some ''"description" is not allowed to be empty''
              else (case others of
                      [] \<Rightarrow> None
                    | k # ks \<Rightarrow> Some (label k @ '' is not allowed'')))
      | _ \<Rightarrow> Some ''"value" must be of type object'')\<close>

text \<open>The errors of the keys of a schema, in the order of the schema.\<close>

definition key_errors :: "schema \<Rightarrow> obj \<Rightarrow> joi_error list" where
  "key_errors sch kv =
     concat (map (\<lambda>c. case validate_key c (seen kv (key c)) of Inl e \<Rightarrow> [e] | Inr r \<Rightarrow> []) sch)"







text \<open>Concrete requests and stores, for the examples.\<close>

definition groceries :: obj where
  "groceries =
     [(''title'', JStr ''Buy groceries''), (''description'', JStr ''I should buy groceries'')]"

definition empty_store :: store where
  "empty_store = \<lparr>doc = Some (JArr []), writable = True\<rparr>"

definition stored_groceries :: json where
  "stored_groceries = JObj ((''id'', JStr ''u1'') # groceries)"

definition one_todo_store :: store where
  "one_todo_store = \<lparr>doc = Some (JArr [stored_groceries]), writable = True\<rparr>"

definition missing_store :: store where
  "missing_store = \<lparr>doc = None, writable = True\<rparr>"

definition with_priority :: obj where
  "with_priority = [(''completed'', JBool True), (''priority'', JStr ''high'')]"





definition read_only_store :: store where
  "read_only_store = \<lparr>doc = Some (JArr [stored_groceries]), writable = False\<rparr>"

definition with_proto :: obj where
  "with_proto = [(''__proto__'', JObj [(''priority'', JStr ''high'')])]"


section \<open>Auxiliary facts\<close>

subsection \<open>Spreads and splices\<close>

lemma update_append_new: "k \<notin> fst ` set al \<Longrightarrow> AList.update k v al = al @ [(k, v)]"
  by (induction al) auto

lemma foldl_update_append:
  "distinct (map fst (acc @ kv)) \<Longrightarrow> foldl (\<lambda>a (k, v). AList.update k v a) acc kv = acc @ kv"
proof (induction kv arbitrary: acc)
  case Nil
  then show ?case by simp
next
  case (Cons p kv)
  obtain k v where p: "p = (k, v)" by (cases p)
  from Cons.prems p have new: "k \<notin> fst ` set acc" by auto
  from Cons.prems p have "distinct (map fst ((acc @ [(k, v)]) @ kv))" by auto
  from Cons.IH [OF this] p new show ?case by (simp add: update_append_new)
qed

lemma spread_single: "distinct (map fst kv) \<Longrightarrow> spread [JObj kv] = JObj kv"
  using foldl_update_append [of "[]" kv] by (simp add: spread_def)

lemma map_of_foldl_update_other:
  "k \<notin> fst ` set kv \<Longrightarrow>
   map_of (foldl (\<lambda>a (k, v). AList.update k v a) acc kv) k = map_of acc k"
  by (induction kv arbitrary: acc) (auto simp: update_conv')

lemma splice_replace: "n < length xs \<Longrightarrow> splice (int n) (Suc 0) [u] xs = xs[n := u]"
  by (simp add: splice_def Let_def upd_conv_take_nth_drop min_def)


subsection \<open>Searching the collection\<close>

lemma id_is_conv: "id_is i t = (if t = JNull then Inl TypeError else Inr (todo_id t = Some i))"
  by (cases t) (auto simp: id_is_def split: option.splits json.splits)

lemma filter_id_conv:
  "filter_id i ts =
     (if JNull \<in> set ts then Inl TypeError else Inr (filter (\<lambda>t. todo_id t = Some i) ts))"
  by (induction ts) (auto simp: id_is_conv)

lemma findIndex_id_conv:
  "JNull \<notin> set ts \<Longrightarrow>
   findIndex_id i ts =
     Inr (if \<exists>t \<in> set ts. todo_id t = Some i
          then int (length (takeWhile (\<lambda>t. todo_id t \<noteq> Some i) ts)) else - 1)"
  by (induction ts) (auto simp: id_is_conv)

lemma first_match:
  "filter P xs = t # r \<Longrightarrow>
   length (takeWhile (\<lambda>x. \<not> P x) xs) < length xs \<and>
   xs ! length (takeWhile (\<lambda>x. \<not> P x) xs) = t \<and> (\<exists>x \<in> set xs. P x)"
  by (induction xs) (auto split: if_splits)

lemma findById_Some_iff:
  "findById s i = Inr (Some t) \<longleftrightarrow>
     (\<exists>todos r. doc s = Some (JArr todos) \<and> JNull \<notin> set todos \<and>
        filter (\<lambda>t. todo_id t = Some i) todos = t # r)"
  by (auto simp: findById_def find_todos_def filter_id_conv
      split: option.splits json.splits sum.splits list.splits if_splits)


lemma updateByIdAndUpdate_found:
  assumes "doc s = Some (JArr todos)" and "JNull \<notin> set todos"
    and "filter (\<lambda>t. todo_id t = Some i) todos = t # r" and "writable s"
  shows "updateByIdAndUpdate s i u =
     Inr (spread [t, u],
          s\<lparr>doc := Some (JArr (todos[length (takeWhile (\<lambda>t. todo_id t \<noteq> Some i) todos) := spread [t, u]]))\<rparr>)"
proof -
  have f: "findById s i = Inr (Some t)"
    using assms by (auto simp: findById_Some_iff)
  note fm = first_match [OF assms(3)]
  show ?thesis
    using assms(1,2,4) fm
    by (simp add: updateByIdAndUpdate_def f find_todos_def findIndex_id_conv writeFile_def
        splice_replace Let_def)
qed


subsection \<open>The validator\<close>

lemma unknown_keys_Nil: "unknown_keys sch own = [] \<longleftrightarrow> fst ` set own \<subseteq> key ` set sch"
  by (auto simp: unknown_keys_def filter_empty_conv)

lemma own_of_copy_keys: "fst ` set (own_of_copy kv) = fst ` set kv - {''__proto__''}"
  by (auto simp: own_of_copy_def image_iff)

lemma validate_None_obj:
  assumes "fst (validate sch body) = None"
  obtains kv where "body = JObj kv" and "fst ` set kv \<subseteq> key ` set sch \<union> {''__proto__''}"
proof (cases body)
  case (JObj kv)
  with assms have "unknown_keys sch (own_of_copy kv) = []"
    by (auto split: prod.splits option.splits list.splits)
  then have "fst ` set kv - {''__proto__''} \<subseteq> key ` set sch"
    by (simp add: unknown_keys_Nil own_of_copy_keys)
  then have "fst ` set kv \<subseteq> key ` set sch \<union> {''__proto__''}" by blast
  with JObj that show ?thesis by simp
qed (use assms in auto)

lemma validate_None_keys:
  assumes "fst (validate sch (JObj kv)) = None"
  shows "fst ` set kv \<subseteq> key ` set sch \<union> {''__proto__''}"
proof -
  from assms obtain kv' where "JObj kv = JObj kv'"
    and "fst ` set kv' \<subseteq> key ` set sch \<union> {''__proto__''}"
    by (rule validate_None_obj)
  then show ?thesis by simp
qed

lemma todoSchema_no_id:
  assumes "fst (validate todoSchema (JObj kv)) = None"
  shows "''id'' \<notin> fst ` set kv"
  using validate_None_keys [OF assms] by (auto simp: todoSchema_def)

lemma updateTodoSchema_no_id:
  assumes "fst (validate updateTodoSchema (JObj kv)) = None"
  shows "''id'' \<notin> fst ` set kv"
  using validate_None_keys [OF assms] by (auto simp: updateTodoSchema_def)

lemma validate_keys_first:
  "distinct (map key sch) \<Longrightarrow>
   \<forall>c \<in> set sch. read_key own' inh (key c) = read_key (own_of_copy kv) (inherited_of_copy kv) (key c) \<Longrightarrow>
   inh = inherited_of_copy kv \<Longrightarrow>
   fst (validate_keys sch inh own') = (case key_errors sch kv of [] \<Rightarrow> None | e # es \<Rightarrow> Some e)"
proof (induction sch arbitrary: own')
  case Nil
  then show ?case by (simp add: key_errors_def)
next
  case (Cons c cs)
  have here: "read_key own' inh (key c) = seen kv (key c)"
    using Cons.prems by (simp add: seen_def)
  show ?case
  proof (cases "validate_key c (seen kv (key c))")
    case (Inl e)
    then show ?thesis by (simp add: here key_errors_def)
  next
    case (Inr r)
    have rest: "\<forall>d \<in> set cs.
        read_key (case r of None \<Rightarrow> own' | Some v \<Rightarrow> AList.update (key c) v own') inh (key d) =
        read_key (own_of_copy kv) (inherited_of_copy kv) (key d)"
    proof
      fix d
      assume d: "d \<in> set cs"
      from Cons.prems have "key c \<notin> key ` set cs" by simp
      with d have "key d \<noteq> key c" by (metis imageI)
      moreover from d Cons.prems
      have "read_key own' inh (key d) = read_key (own_of_copy kv) (inherited_of_copy kv) (key d)"
        by simp
      ultimately show "read_key (case r of None \<Rightarrow> own' | Some v \<Rightarrow> AList.update (key c) v own') inh (key d) =
          read_key (own_of_copy kv) (inherited_of_copy kv) (key d)"
        by (cases r) (simp_all add: read_key_def update_conv')
    qed
    have "distinct (map key cs)" using Cons.prems by simp
    from Cons.IH [OF this rest Cons.prems(3)] Inr show ?thesis
      by (cases r) (simp_all add: here key_errors_def)
  qed
qed

lemma validate_fst:
  assumes "distinct (map key sch)"
  shows "fst (validate sch (JObj kv)) =
     (case key_errors sch kv of
        e # es \<Rightarrow> Some e
      | [] \<Rightarrow> (case unknown_keys sch (own_of_copy kv) of
                 [] \<Rightarrow> None
               | k # ks \<Rightarrow> Some (ObjectUnknown k)))"
proof -
  obtain r own' where r: "validate_keys sch (inherited_of_copy kv) (own_of_copy kv) = (r, own')"
    by (cases "validate_keys sch (inherited_of_copy kv) (own_of_copy kv)")
  from validate_keys_first [OF assms, of "own_of_copy kv" "inherited_of_copy kv" kv] r
  have "r = (case key_errors sch kv of [] \<Rightarrow> None | e # es \<Rightarrow> Some e)"
    by simp
  with r show ?thesis
    by (cases "key_errors sch kv"; cases "unknown_keys sch (own_of_copy kv)") simp_all
qed

lemma string_key_errors:
  "(case validate_key (KeySchema k JoiString req d) item of Inl e \<Rightarrow> [e] | Inr r \<Rightarrow> []) =
     (if item = None \<and> req then [AnyRequired k]
      else if item \<noteq> None \<and> \<not> is_string item then [StringBase k]
      else if item = Some (JStr []) then [StringEmpty k]
      else [])"
proof (cases item)
  case None
  then show ?thesis by (simp add: validate_key_def)
next
  case (Some v)
  then show ?thesis by (cases v) (simp_all add: validate_key_def)
qed

lemma boolean_key_errors:
  "(case validate_key (KeySchema k JoiBoolean False d) item of Inl e \<Rightarrow> [e] | Inr r \<Rightarrow> []) =
     (if item \<noteq> None \<and> \<not> is_boolean item then [BooleanBase k] else [])"
proof (cases item)
  case None
  then show ?thesis by (simp add: validate_key_def)
next
  case (Some v)
  then show ?thesis by (cases v) (simp_all add: validate_key_def)
qed

lemma others_unknown:
  "filter (\<lambda>k. k \<noteq> ''title'' \<and> k \<noteq> ''completed'' \<and> k \<noteq> ''description'' \<and> k \<noteq> ''__proto__'')
     (map fst kv) = unknown_keys [KeySchema ''title'' t1 r1 d1, KeySchema ''completed'' t2 r2 d2,
       KeySchema ''description'' t3 r3 d3] (own_of_copy kv)"
  by (induction kv) (auto simp: unknown_keys_def own_of_copy_def)

lemma message_texts:
  \<open>message (AnyRequired ''title'') = ''"title" is required''\<close>
  \<open>message (StringBase ''title'') = ''"title" must be a string''\<close>
  \<open>message (StringEmpty ''title'') = ''"title" is not allowed to be empty''\<close>
  \<open>message (BooleanBase ''completed'') = ''"completed" must be a boolean''\<close>
  \<open>message (AnyRequired ''description'') = ''"description" is required''\<close>
  \<open>message (StringBase ''description'') = ''"description" must be a string''\<close>
  \<open>message (StringEmpty ''description'') = ''"description" is not allowed to be empty''\<close>
  \<open>message ObjectBase = ''"value" must be of type object''\<close>
  by (simp_all add: label_def)


lemma rejection_updateTodoSchema:
  "rejection False body = map_option message (fst (validate updateTodoSchema body))"
proof (cases body)
  case (JObj kv)
  have d: "distinct (map key updateTodoSchema)" by (simp add: updateTodoSchema_def)
  have ke: "key_errors updateTodoSchema kv =
      (if seen kv ''title'' = None \<and> False then [AnyRequired ''title'']
       else if seen kv ''title'' \<noteq> None \<and> \<not> is_string (seen kv ''title'') then [StringBase ''title'']
       else if seen kv ''title'' = Some (JStr []) then [StringEmpty ''title''] else []) @
      (if seen kv ''completed'' \<noteq> None \<and> \<not> is_boolean (seen kv ''completed'')
       then [BooleanBase ''completed''] else []) @
      (if seen kv ''description'' = None \<and> False then [AnyRequired ''description'']
       else if seen kv ''description'' \<noteq> None \<and> \<not> is_string (seen kv ''description'')
         then [StringBase ''description'']
       else if seen kv ''description'' = Some (JStr []) then [StringEmpty ''description''] else [])"
    unfolding key_errors_def updateTodoSchema_def
    by (simp only: list.map concat.simps key_schema.sel string_key_errors boolean_key_errors append_Nil2)
  show ?thesis
    unfolding JObj validate_fst [OF d] ke
    by (simp add: rejection_def Let_def message_texts others_unknown [symmetric] updateTodoSchema_def
        split: list.splits del: message.simps(1-5))
next
qed (simp_all add: rejection_def message_texts del: message.simps(1-5))

text \<open>
  A body whose only own key is \<^verbatim>\<open>__proto__\<close> passes both the update schema (nothing
  is required) and, when the object under \<^verbatim>\<open>__proto__\<close> has a title and a
  description, the create schema; the spreads of the controllers then copy the key
  like any other.
\<close>

lemma put_proto_is_merged:
  "put_todo one_todo_store ''u1'' (JObj with_proto) =
     (Responded (StatusJson 200 (JObj [(''id'', JStr ''u1'')])),
      one_todo_store\<lparr>doc := Some (JArr [JObj ((''id'', JStr ''u1'') # groceries @ with_proto)])\<rparr>)"
  by (simp add: put_todo_def validateBody_def updateTodoSchema_def validate_key_def
      own_of_copy_def inherited_of_copy_def read_key_def unknown_keys_def with_proto_def
      updateTodo_def updateByIdAndUpdate_def findById_def find_todos_def one_todo_store_def
      stored_groceries_def groceries_def id_is_def spread_def writeFile_def splice_def
      id_only_def Let_def)

lemma post_proto_is_created:
  "post_todos empty_store ''u1'' (JObj [(''__proto__'', JObj groceries)]) =
     (Responded (StatusJson 201 (JObj [(''id'', JStr ''u1''), (''__proto__'', JObj groceries)])),
      empty_store\<lparr>doc := Some (JArr [JObj [(''id'', JStr ''u1''), (''__proto__'', JObj groceries)]])\<rparr>)"
  by (simp add: post_todos_def validateBody_def todoSchema_def validate_key_def
      own_of_copy_def inherited_of_copy_def read_key_def unknown_keys_def groceries_def
      createTodo_def save_def find_todos_def empty_store_def spread_def writeFile_def)

lemma groceries_valid: "fst (validate todoSchema (JObj groceries)) = None"
  by (simp add: todoSchema_def groceries_def validate_key_def unknown_keys_def
      own_of_copy_def inherited_of_copy_def read_key_def)

lemma groceries_valid_update: "fst (validate updateTodoSchema (JObj groceries)) = None"
  by (simp add: updateTodoSchema_def groceries_def validate_key_def unknown_keys_def
      own_of_copy_def inherited_of_copy_def read_key_def)

lemma createTodo_valid:
  assumes "fst (validate todoSchema (JObj kv)) = None" and "distinct (map fst kv)"
  shows "spread [JObj [(''id'', JStr uuid)], JObj kv] = JObj ((''id'', JStr uuid) # kv)"
proof -
  from assms(1) have "''id'' \<notin> fst ` set kv"
    by (rule todoSchema_no_id)
  with assms(2) have "distinct (map fst ([(''id'', JStr uuid)] @ kv))" by simp
  from foldl_update_append [OF this] show ?thesis by (simp add: spread_def)
qed

subsection \<open>Updates and deletions\<close>

lemma todo_id_SomeD: "todo_id t = Some i \<Longrightarrow> \<exists>kv. t = JObj kv \<and> map_of kv ''id'' = Some (JStr i)"
  by (cases t) (auto split: option.splits json.splits)

lemma updateByIdAndUpdate_InrD:
  assumes "updateByIdAndUpdate s i u = Inr (u', s')"
  obtains todos t r where "doc s = Some (JArr todos)" and "JNull \<notin> set todos"
    and "filter (\<lambda>t. todo_id t = Some i) todos = t # r" and "writable s"
proof -
  from assms obtain t where t: "findById s i = Inr (Some t)"
    by (auto simp: updateByIdAndUpdate_def split: sum.splits option.splits)
  then obtain todos r where 1: "doc s = Some (JArr todos)" "JNull \<notin> set todos"
    "filter (\<lambda>t. todo_id t = Some i) todos = t # r"
    by (auto simp: findById_Some_iff)
  have "writable s"
  proof (rule ccontr)
    assume "\<not> writable s"
    with assms t 1 show False
      by (simp add: updateByIdAndUpdate_def find_todos_def findIndex_id_conv writeFile_def Let_def)
  qed
  with 1 that show ?thesis by blast
qed


lemma spread_update_id:
  assumes "distinct (map fst tkv)" and "''id'' \<notin> fst ` set bkv"
  shows "get_prop (spread [JObj tkv, JObj bkv]) ''id'' = get_prop (JObj tkv) ''id''"
  using foldl_update_append [of "[]" tkv] assms
  by (simp add: spread_def map_of_foldl_update_other)

lemma put_todo_keeps_ids:
  assumes "doc s = Some (JArr todos)" and "list_all distinct_keys todos"
  shows "\<exists>todos'. doc (snd (put_todo s i body)) = Some (JArr todos') \<and>
     map (\<lambda>t. get_prop t ''id'') todos' = map (\<lambda>t. get_prop t ''id'') todos"
proof (cases "fst (validate updateTodoSchema body)")
  case (Some e)
  with assms show ?thesis by (simp add: put_todo_def validateBody_def)
next
  case None
  then obtain bkv where body: "body = JObj bkv" by (rule validate_None_obj)
  from None body have noid: "''id'' \<notin> fst ` set bkv" by (simp add: updateTodoSchema_no_id)
  show ?thesis
  proof (cases "updateByIdAndUpdate s i body")
    case (Inl e)
    with None assms show ?thesis by (simp add: put_todo_def validateBody_def updateTodo_def)
  next
    case (Inr p)
    obtain u' s' where p: "p = (u', s')" by (cases p)
    from Inr p obtain todos0 t r where 0: "doc s = Some (JArr todos0)" "JNull \<notin> set todos0"
      "filter (\<lambda>t. todo_id t = Some i) todos0 = t # r" "writable s"
      by (auto elim: updateByIdAndUpdate_InrD)
    with assms have [simp]: "todos0 = todos" by simp
    let ?n = "length (takeWhile (\<lambda>t. todo_id t \<noteq> Some i) todos)"
    from first_match [OF 0(3)] have n: "?n < length todos" "todos ! ?n = t" by simp_all
    from 0(3) have "t \<in> set (filter (\<lambda>t. todo_id t = Some i) todos0)" by simp
    then have mem: "t \<in> set todos" and "todo_id t = Some i" by simp_all
    then obtain tkv where t: "t = JObj tkv" by (auto dest: todo_id_SomeD)
    from mem assms(2) have "distinct_keys t" by (simp add: list_all_iff)
    with t have d: "distinct (map fst tkv)" by simp
    have same: "get_prop (spread [t, body]) ''id'' = get_prop (todos ! ?n) ''id''"
      using spread_update_id [OF d noid] t body n by simp
    have s': "snd (put_todo s i body) = s\<lparr>doc := Some (JArr (todos[?n := spread [t, body]]))\<rparr>"
      using updateByIdAndUpdate_found [OF 0, of body] None
      by (simp add: put_todo_def validateBody_def updateTodo_def)
    show ?thesis
      using same n by (simp add: s' map_update list_update_same_conv)
  qed
qed

lemma todo_id_JObj: "todo_id (JObj kv) = Some i \<longleftrightarrow> map_of kv ''id'' = Some (JStr i)"
  by (auto split: option.splits json.splits)

lemma store_doc_same: "doc s = d \<Longrightarrow> s\<lparr>doc := d\<rparr> = s"
  by (cases s) simp

lemma one_todo_found: "findById one_todo_store ''u1'' = Inr (Some stored_groceries)"
  by (simp add: one_todo_store_def stored_groceries_def groceries_def findById_def
      find_todos_def id_is_def)

lemma post_todos_appends:
  assumes "fst (validate todoSchema (JObj kv)) = None" and "distinct (map fst kv)"
    and "doc s = Some (JArr todos)" and "writable s"
  shows "post_todos s uuid (JObj kv) =
     (Responded (StatusJson 201 (JObj ((''id'', JStr uuid) # kv))),
      s\<lparr>doc := Some (JArr (todos @ [JObj ((''id'', JStr uuid) # kv)]))\<rparr>)"
proof -
  from assms(1) have "''id'' \<notin> fst ` set kv"
    by (rule todoSchema_no_id)
  with assms(2) have d: "distinct (map fst ((''id'', JStr uuid) # kv))" by simp
  show ?thesis
    using assms(1,3,4) spread_single [OF d]
    by (simp add: post_todos_def validateBody_def createTodo_def createTodo_valid [OF assms(1,2)]
        save_def find_todos_def writeFile_def)
qed






subsection \<open>What a sequence of requests preserves\<close>


















section \<open>The properties\<close>

subsection \<open>C1: the default of \<open>completed\<close>\<close>

text \<open>
  C1 says that a valid create payload without \<^verbatim>\<open>completed\<close> is persisted with
  \<^verbatim>\<open>completed\<close> equal to false, and read back so. The schema declares the default, and
  Joi puts it into the \<^verbatim>\<open>value\<close> that \<^verbatim>\<open>validate\<close> returns; \<open>validateBody\<close> reads
  only \<^verbatim>\<open>error\<close>, and \<open>createTodo\<close> stores \<^verbatim>\<open>req.body\<close> as it came. For the payload
  of the specification's example on an empty collection: the validated value has
  \<^verbatim>\<open>completed: false\<close>, the stored record and the body of the following GET have no
  \<^verbatim>\<open>completed\<close> at all.
\<close>

theorem create_without_completed_stores_no_default:
  "snd (validate todoSchema (JObj groceries)) = JObj (groceries @ [(''completed'', JBool False)])
   \<and> snd (post_todos empty_store ''u1'' (JObj groceries)) = one_todo_store
   \<and> get_todo one_todo_store ''u1'' = Responded (Send stored_groceries)
   \<and> get_prop stored_groceries ''completed'' = Inr None"
  by (simp add: post_todos_def validateBody_def todoSchema_def validate_key_def own_of_copy_def inherited_of_copy_def read_key_def groceries_def
      empty_store_def one_todo_store_def stored_groceries_def createTodo_def save_def
      find_todos_def writeFile_def spread_def unknown_keys_def get_todo_def getTodoById_def
      findById_def id_is_def)

subsection \<open>C2: the response of a create\<close>

text \<open>
  C2 says that POST /todos with a valid payload answers 201 with a body that consists of
  \<^verbatim>\<open>{id}\<close>. The controller answers \<^verbatim>\<open>{ ...newTodo }\<close>, the whole record: for the example
  payload the body is the record with its title and description, which is not \<^verbatim>\<open>{id}\<close>.
\<close>

theorem post_todos_body_is_whole_record:
  "fst (validate todoSchema (JObj groceries)) = None
   \<and> fst (post_todos empty_store ''u1'' (JObj groceries)) =
       Responded (StatusJson 201 stored_groceries)
   \<and> stored_groceries \<noteq> JObj [(''id'', JStr ''u1'')]"
  by (simp add: post_todos_def validateBody_def todoSchema_def validate_key_def own_of_copy_def inherited_of_copy_def read_key_def groceries_def
      empty_store_def stored_groceries_def createTodo_def save_def
      find_todos_def writeFile_def spread_def unknown_keys_def)

text \<open>
  C2, amended: for every valid create payload, on a collection that can be read and
  written, POST /todos answers 201 with the created record as its body: the generated
  \<^verbatim>\<open>id\<close> first, then the fields of the payload; the record is appended to the collection.
\<close>

theorem post_todos_created:
  assumes "fst (validate todoSchema (JObj kv)) = None" and "distinct (map fst kv)"
    and "doc s = Some (JArr todos)" and "writable s"
  shows "post_todos s uuid (JObj kv) =
     (Responded (StatusJson 201 (JObj ((''id'', JStr uuid) # kv))),
      s\<lparr>doc := Some (JArr (todos @ [JObj ((''id'', JStr uuid) # kv)]))\<rparr>)"
  using assms by (rule post_todos_appends)

text \<open>The example payload on the empty collection satisfies the hypotheses of C2 as amended.\<close>

theorem post_todos_created_witness:
  "fst (validate todoSchema (JObj groceries)) = None \<and> distinct (map fst groceries)
   \<and> doc empty_store = Some (JArr []) \<and> writable empty_store
   \<and> post_todos empty_store ''u1'' (JObj groceries) =
     (Responded (StatusJson 201 (JObj ((''id'', JStr ''u1'') # groceries))),
      empty_store\<lparr>doc := Some (JArr ([] @ [JObj ((''id'', JStr ''u1'') # groceries)]))\<rparr>)"
proof -
  have v: "fst (validate todoSchema (JObj groceries)) = None" by (rule groceries_valid)
  have d: "distinct (map fst groceries)" by (simp add: groceries_def)
  have e: "doc empty_store = Some (JArr [])" by (simp add: empty_store_def)
  have w: "writable empty_store" by (simp add: empty_store_def)
  from post_todos_created [OF v d e w, of "''u1''"] v d e w show ?thesis by blast
qed

subsection \<open>C3: storage errors\<close>

text \<open>
  C3 says that when the storage document is missing, unreadable or not valid JSON, no
  handler catches the error, and that it is never mapped to a 404 response.
  \<open>updateTodo\<close> and \<open>deleteTodo\<close> wrap the store call in \<^verbatim>\<open>try/catch\<close> and answer 404
  for every exception: on a missing document, PUT (with a body that passes validation)
  and DELETE answer 404.
\<close>

theorem put_on_missing_document_is_404:
  "doc missing_store = None
   \<and> fst (validate updateTodoSchema (JObj groceries)) = None
   \<and> put_todo missing_store ''u1'' (JObj groceries) = (Responded (SendStatus 404), missing_store)
   \<and> delete_todo missing_store ''u1'' = (Responded (SendStatus 404), missing_store)"
  using groceries_valid_update
  by (simp add: missing_store_def put_todo_def validateBody_def
      updateTodo_def updateByIdAndUpdate_def findById_def find_todos_def delete_todo_def
      deleteTodo_def deleteById_def del: validate.simps)

text \<open>
  C3, amended: when the storage document is missing, unreadable or not valid JSON,
  GET /todos, GET /todos/{id} and POST /todos with a valid payload do not catch the
  error (the controller's promise is rejected and it sends no response), while
  PUT /todos/{id} with a body that passes validation and DELETE /todos/{id} catch it
  and answer 404; the document is left as it was.
\<close>

theorem storage_error_outcomes:
  assumes "doc s = None"
  shows "get_todos s = Rejected StorageError
    \<and> get_todo s i = Rejected StorageError
    \<and> (fst (validate todoSchema body) = None \<longrightarrow>
         post_todos s uuid body = (Rejected StorageError, s))
    \<and> (fst (validate updateTodoSchema body') = None \<longrightarrow>
         put_todo s i body' = (Responded (SendStatus 404), s))
    \<and> delete_todo s i = (Responded (SendStatus 404), s)"
  using assms
  by (simp add: get_todos_def getAllTodos_def get_todo_def getTodoById_def findById_def
      find_todos_def post_todos_def validateBody_def createTodo_def save_def put_todo_def
      updateTodo_def updateByIdAndUpdate_def delete_todo_def deleteTodo_def deleteById_def)

text \<open>The hypotheses of C3 as amended hold for the missing document and the example payload.\<close>

theorem storage_error_outcomes_witness:
  "doc missing_store = None
   \<and> fst (validate todoSchema (JObj groceries)) = None
   \<and> fst (validate updateTodoSchema (JObj groceries)) = None
   \<and> get_todos missing_store = Rejected StorageError
   \<and> get_todo missing_store ''u1'' = Rejected StorageError
   \<and> post_todos missing_store ''u1'' (JObj groceries) = (Rejected StorageError, missing_store)
   \<and> put_todo missing_store ''u1'' (JObj groceries) = (Responded (SendStatus 404), missing_store)
   \<and> delete_todo missing_store ''u1'' = (Responded (SendStatus 404), missing_store)"
proof -
  have m: "doc missing_store = None" by (simp add: missing_store_def)
  from storage_error_outcomes [OF m, of "''u1''" "JObj groceries" "''u1''" "JObj groceries"]
    m groceries_valid groceries_valid_update
  show ?thesis by blast
qed

subsection \<open>C4: unknown fields in an update\<close>

text \<open>
  C4 says that a PUT whose body has a field outside title, description and completed is
  not rejected, and that the field is merged into the record. \<open>updateTodoSchema\<close> is a
  \<^verbatim>\<open>Joi.object\<close> with the default preferences, which refuse unknown keys: a PUT with
  \<^verbatim>\<open>{completed: true, priority: "high"}\<close> on a stored record answers 400 with the
  message that \<^verbatim>\<open>"priority"\<close> is not allowed, and the collection stays as it was.
\<close>

theorem put_unknown_field_is_rejected:
  "put_todo one_todo_store ''u1'' (JObj with_priority) =
     (Responded (StatusJson 400
        (JObj [(''error'', JStr (CHR 0x22 # ''priority'' @ CHR 0x22 # '' is not allowed''))])),
      one_todo_store)"
  by (simp add: put_todo_def validateBody_def updateTodoSchema_def validate_key_def
      own_of_copy_def inherited_of_copy_def read_key_def with_priority_def unknown_keys_def
      label_def)

text \<open>
  C4, amended: every PUT /todos/{id} whose body has an own field that is none of title,
  description, completed and \<^verbatim>\<open>__proto__\<close> is rejected by the validation: the answer
  is 400 with the text of the first constraint that the body violates, and the
  collection is unchanged.
\<close>

theorem put_unknown_key_is_400:
  assumes "k \<in> fst ` set kv"
    and "k \<notin> {''title'', ''description'', ''completed'', ''__proto__''}"
  shows "\<exists>m. rejection False (JObj kv) = Some m \<and>
     put_todo s i (JObj kv) = (Responded (StatusJson 400 (JObj [(''error'', JStr m)])), s)"
proof -
  have "fst (validate updateTodoSchema (JObj kv)) \<noteq> None"
  proof
    assume "fst (validate updateTodoSchema (JObj kv)) = None"
    from validate_None_keys [OF this] assms show False
      by (auto simp: updateTodoSchema_def)
  qed
  then obtain e where e: "fst (validate updateTodoSchema (JObj kv)) = Some e" by auto
  then have "rejection False (JObj kv) = Some (message e)"
    by (simp only: rejection_updateTodoSchema option.map)
  moreover from e have "put_todo s i (JObj kv) =
      (Responded (StatusJson 400 (JObj [(''error'', JStr (message e))])), s)"
    by (simp add: put_todo_def validateBody_def del: validate.simps)
  ultimately show ?thesis by blast
qed

text \<open>The body with the field \<^verbatim>\<open>priority\<close> satisfies the hypotheses of C4 as amended.\<close>

theorem put_unknown_key_is_400_witness:
  "''priority'' \<in> fst ` set with_priority
   \<and> ''priority'' \<notin> {''title'', ''description'', ''completed'', ''__proto__''}
   \<and> (\<exists>m. rejection False (JObj with_priority) = Some m \<and>
         put_todo one_todo_store ''u1'' (JObj with_priority) =
           (Responded (StatusJson 400 (JObj [(''error'', JStr m)])), one_todo_store))"
proof -
  have a: "''priority'' \<in> fst ` set with_priority" by (simp add: with_priority_def)
  have b: "''priority'' \<notin> {''title'', ''description'', ''completed'', ''__proto__''}" by simp
  from put_unknown_key_is_400 [OF a b, of one_todo_store "''u1''"] a b show ?thesis
    by (intro conjI)
qed

subsection \<open>C5: the identifier comes from the store and never changes\<close>

text \<open>
  C5: the \<^verbatim>\<open>id\<close> of the record that a create persists is the one that the store
  generated, never a value of the client, and no update changes the \<^verbatim>\<open>id\<close> of a record.
  A payload that passes the create schema has no \<^verbatim>\<open>id\<close> (the schema does not name
  the key), so the spread \<^verbatim>\<open>{ id: uuidv4(), ...todo }\<close> keeps the generated one; and
  after any PUT, accepted or not, every position of the collection holds a record with
  the \<^verbatim>\<open>id\<close> it had before.
\<close>

theorem id_assigned_by_store:
  assumes "doc s = Some (JArr todos)" and "list_all distinct_keys todos"
  shows "(fst (validate todoSchema body) = None \<and> writable s \<longrightarrow>
           get_prop body ''id'' = Inr None \<and>
           (\<exists>rec. snd (post_todos s uuid body) = s\<lparr>doc := Some (JArr (todos @ [rec]))\<rparr> \<and>
                  get_prop rec ''id'' = Inr (Some (JStr uuid))))
       \<and> (\<exists>todos'. doc (snd (put_todo s i body')) = Some (JArr todos') \<and>
             map (\<lambda>t. get_prop t ''id'') todos' = map (\<lambda>t. get_prop t ''id'') todos)"
proof (intro conjI impI)
  assume a: "fst (validate todoSchema body) = None \<and> writable s"
  then obtain kv where body: "body = JObj kv" by (auto elim: validate_None_obj)
  from a body have noid: "''id'' \<notin> fst ` set kv" by (simp add: todoSchema_no_id)
  then show "get_prop body ''id'' = Inr None"
    by (simp add: body map_of_eq_None_iff)
  from noid have "get_prop (spread [JObj [(''id'', JStr uuid)], body]) ''id'' = Inr (Some (JStr uuid))"
    by (simp add: body spread_def map_of_foldl_update_other)
  moreover have "snd (post_todos s uuid body) =
      s\<lparr>doc := Some (JArr (todos @ [spread [JObj [(''id'', JStr uuid)], body]]))\<rparr>"
    using a assms(1)
    by (simp add: post_todos_def validateBody_def createTodo_def save_def find_todos_def writeFile_def)
  ultimately show "\<exists>rec. snd (post_todos s uuid body) = s\<lparr>doc := Some (JArr (todos @ [rec]))\<rparr> \<and>
                  get_prop rec ''id'' = Inr (Some (JStr uuid))"
    by blast
next
  show "\<exists>todos'. doc (snd (put_todo s i body')) = Some (JArr todos') \<and>
             map (\<lambda>t. get_prop t ''id'') todos' = map (\<lambda>t. get_prop t ''id'') todos"
    using assms by (rule put_todo_keeps_ids)
qed

text \<open>C5 on a collection of one record: a create with the example payload, an update of \<^verbatim>\<open>completed\<close>.\<close>

theorem id_assigned_by_store_witness:
  "doc one_todo_store = Some (JArr [stored_groceries])
   \<and> list_all distinct_keys [stored_groceries]
   \<and> fst (validate todoSchema (JObj groceries)) = None \<and> writable one_todo_store
   \<and> get_prop (JObj groceries) ''id'' = Inr None
   \<and> (\<exists>rec. snd (post_todos one_todo_store ''u2'' (JObj groceries)) =
          one_todo_store\<lparr>doc := Some (JArr ([stored_groceries] @ [rec]))\<rparr> \<and>
          get_prop rec ''id'' = Inr (Some (JStr ''u2'')))
   \<and> (\<exists>todos'. doc (snd (put_todo one_todo_store ''u1'' (JObj [(''completed'', JBool True)]))) =
          Some (JArr todos') \<and>
          map (\<lambda>t. get_prop t ''id'') todos' = map (\<lambda>t. get_prop t ''id'') [stored_groceries])"
proof -
  have d: "doc one_todo_store = Some (JArr [stored_groceries])"
    by (simp add: one_todo_store_def)
  have k: "list_all distinct_keys [stored_groceries]"
    by (simp add: stored_groceries_def groceries_def)
  have w: "writable one_todo_store" by (simp add: one_todo_store_def)
  from id_assigned_by_store [OF d k, of "JObj groceries" "''u2''" "''u1''"
      "JObj [(''completed'', JBool True)]"] d k w groceries_valid
  show ?thesis by blast
qed

subsection \<open>C6: an update of \<open>completed\<close> alone\<close>

text \<open>
  C6: for a stored record and a PUT /todos/{id} whose body supplies only \<^verbatim>\<open>completed\<close>,
  the update changes only \<^verbatim>\<open>completed\<close>: every other field of the record keeps its
  value, the record keeps its position in the collection, and the other records are
  untouched. The record is the one that \<open>findById\<close> returns for the id; the new
  collection is the old one with that position replaced.
\<close>

theorem put_completed_only:
  assumes "doc s = Some (JArr todos)" and "writable s"
    and "findById s i = Inr (Some (JObj tkv))" and "distinct (map fst tkv)"
    and "fst (validate updateTodoSchema (JObj [(''completed'', v)])) = None"
  shows "\<exists>n<length todos. todos ! n = JObj tkv \<and>
     put_todo s i (JObj [(''completed'', v)]) =
       (Responded (StatusJson 200 (JObj [(''id'', JStr i)])),
        s\<lparr>doc := Some (JArr (todos[n := JObj (AList.update ''completed'' v tkv)]))\<rparr>) \<and>
     get_prop (JObj (AList.update ''completed'' v tkv)) ''completed'' = Inr (Some v) \<and>
     (\<forall>k. k \<noteq> ''completed'' \<longrightarrow>
        get_prop (JObj (AList.update ''completed'' v tkv)) k = get_prop (JObj tkv) k)"
proof -
  from assms(1,3) obtain r where 0: "JNull \<notin> set todos"
    "filter (\<lambda>t. todo_id t = Some i) todos = JObj tkv # r"
    by (auto simp: findById_Some_iff)
  let ?n = "length (takeWhile (\<lambda>t. todo_id t \<noteq> Some i) todos)"
  from first_match [OF 0(2)] have n: "?n < length todos" "todos ! ?n = JObj tkv" by simp_all
  from 0(2) have "JObj tkv \<in> set (filter (\<lambda>t. todo_id t = Some i) todos)" by simp
  then have idv: "map_of tkv ''id'' = Some (JStr i)"
    by (simp only: set_filter mem_Collect_eq todo_id_JObj)
  have sp: "spread [JObj tkv, JObj [(''completed'', v)]] = JObj (AList.update ''completed'' v tkv)"
    using foldl_update_append [of "[]" tkv] assms(4) by (simp add: spread_def)
  have io: "id_only (JObj (AList.update ''completed'' v tkv)) = JObj [(''id'', JStr i)]"
    using idv by (simp add: id_only_def update_conv')
  have "put_todo s i (JObj [(''completed'', v)]) =
       (Responded (StatusJson 200 (JObj [(''id'', JStr i)])),
        s\<lparr>doc := Some (JArr (todos[?n := JObj (AList.update ''completed'' v tkv)]))\<rparr>)"
    using updateByIdAndUpdate_found [OF assms(1) 0 assms(2), of "JObj [(''completed'', v)]"] assms(5)
    by (simp add: put_todo_def validateBody_def updateTodo_def sp io del: validate.simps)
  with n show ?thesis by (auto simp: update_conv')
qed

text \<open>C6 on the collection of one record, completed with \<^verbatim>\<open>{completed: true}\<close>.\<close>

theorem put_completed_only_witness:
  "doc one_todo_store = Some (JArr [stored_groceries]) \<and> writable one_todo_store
   \<and> findById one_todo_store ''u1'' = Inr (Some (JObj ((''id'', JStr ''u1'') # groceries)))
   \<and> distinct (map fst ((''id'', JStr ''u1'') # groceries))
   \<and> fst (validate updateTodoSchema (JObj [(''completed'', JBool True)])) = None
   \<and> put_todo one_todo_store ''u1'' (JObj [(''completed'', JBool True)]) =
       (Responded (StatusJson 200 (JObj [(''id'', JStr ''u1'')])),
        one_todo_store\<lparr>doc := Some (JArr [JObj ((''id'', JStr ''u1'') # groceries @ [(''completed'', JBool True)])])\<rparr>)
   \<and> ''title'' \<noteq> ''completed''
   \<and> get_prop (JObj ((''id'', JStr ''u1'') # groceries @ [(''completed'', JBool True)])) ''title'' =
       get_prop (JObj ((''id'', JStr ''u1'') # groceries)) ''title''"
proof -
  let ?old = "(''id'', JStr ''u1'') # groceries"
  let ?new = "(''id'', JStr ''u1'') # groceries @ [(''completed'', JBool True)]"
  have d: "doc one_todo_store = Some (JArr [stored_groceries])"
    by (simp add: one_todo_store_def)
  have w: "writable one_todo_store" by (simp add: one_todo_store_def)
  have f: "findById one_todo_store ''u1'' = Inr (Some (JObj ?old))"
    using one_todo_found by (simp add: stored_groceries_def)
  have k: "distinct (map fst ?old)"
    by (simp add: groceries_def)
  have v: "fst (validate updateTodoSchema (JObj [(''completed'', JBool True)])) = None"
    by (simp add: updateTodoSchema_def validate_key_def own_of_copy_def inherited_of_copy_def read_key_def unknown_keys_def)
  have u: "AList.update ''completed'' (JBool True) ?old = ?new"
    by (simp add: groceries_def)
  from put_completed_only [OF d w f k v] obtain n
    where n: "n < length [stored_groceries]"
      and p: "put_todo one_todo_store ''u1'' (JObj [(''completed'', JBool True)]) =
        (Responded (StatusJson 200 (JObj [(''id'', JStr ''u1'')])),
         one_todo_store\<lparr>doc := Some (JArr ([stored_groceries]
           [n := JObj (AList.update ''completed'' (JBool True) ?old)]))\<rparr>)"
      and t: "\<forall>k. k \<noteq> ''completed'' \<longrightarrow>
        get_prop (JObj (AList.update ''completed'' (JBool True) ?old)) k = get_prop (JObj ?old) k"
    by blast
  from n have n0: "n = 0" by simp
  have p': "put_todo one_todo_store ''u1'' (JObj [(''completed'', JBool True)]) =
      (Responded (StatusJson 200 (JObj [(''id'', JStr ''u1'')])),
       one_todo_store\<lparr>doc := Some (JArr [JObj ?new])\<rparr>)"
    using p unfolding n0 u by simp
  have ne: "''title'' \<noteq> ''completed''" by simp
  from t [rule_format, of "''title''", OF ne]
  have t': "get_prop (JObj ?new) ''title'' = get_prop (JObj ?old) ''title''"
    unfolding u .
  from d w f k v p' ne t' show ?thesis by (intro conjI)
qed

subsection \<open>C7: a create that fails the validation\<close>



subsection \<open>C8: a read after a delete\<close>




subsection \<open>C9: a created record is read back under its own id\<close>




subsection \<open>C10: the empty update\<close>

text \<open>
  C10 says that for every id of the collection, PUT /todos/{id} with the body \<^verbatim>\<open>{}\<close>
  passes the validation, answers 200 with \<^verbatim>\<open>{id}\<close> and leaves the collection as it
  was. The empty update writes the file again like any other; when the write fails,
  \<open>updateTodo\<close> catches the error and answers 404, also for an id of the collection.
\<close>

theorem put_empty_on_read_only_is_404:
  "findById read_only_store ''u1'' = Inr (Some stored_groceries)
   \<and> put_todo read_only_store ''u1'' (JObj []) = (Responded (SendStatus 404), read_only_store)"
  by (simp add: read_only_store_def stored_groceries_def groceries_def findById_def
      find_todos_def id_is_def put_todo_def validateBody_def updateTodoSchema_def
      validate_key_def own_of_copy_def inherited_of_copy_def read_key_def unknown_keys_def
      updateTodo_def updateByIdAndUpdate_def writeFile_def)

text \<open>
  C10, amended: for every id for which \<open>findById\<close> finds a record (the document is an
  array without \<^verbatim>\<open>null\<close> element, and a record has the id), when the document can be
  written, PUT /todos/{id} with the body \<^verbatim>\<open>{}\<close> passes the validation, answers 200
  with \<^verbatim>\<open>{id}\<close>, and leaves the record and the rest of the collection as they were.
\<close>

theorem put_empty_is_identity:
  assumes "findById s i = Inr (Some t)" and "distinct_keys t" and "writable s"
  shows "fst (validate updateTodoSchema (JObj [])) = None \<and>
     put_todo s i (JObj []) = (Responded (StatusJson 200 (JObj [(''id'', JStr i)])), s)"
proof -
  from assms(1) obtain todos r where 0: "doc s = Some (JArr todos)" "JNull \<notin> set todos"
    "filter (\<lambda>t. todo_id t = Some i) todos = t # r"
    by (auto simp: findById_Some_iff)
  let ?n = "length (takeWhile (\<lambda>t. todo_id t \<noteq> Some i) todos)"
  from first_match [OF 0(3)] have n: "?n < length todos" "todos ! ?n = t" by simp_all
  from 0(3) have "t \<in> set (filter (\<lambda>t. todo_id t = Some i) todos)" by simp
  then have "todo_id t = Some i" by simp
  then obtain tkv where t: "t = JObj tkv" and idv: "map_of tkv ''id'' = Some (JStr i)"
    by (auto dest!: todo_id_SomeD)
  from assms(2) t have d: "distinct (map fst tkv)" by simp
  have v: "fst (validate updateTodoSchema (JObj [])) = None"
    by (simp add: updateTodoSchema_def validate_key_def own_of_copy_def inherited_of_copy_def read_key_def unknown_keys_def)
  have sp: "spread [t, JObj []] = t"
    using foldl_update_append [of "[]" tkv] d by (simp add: spread_def t)
  have io: "id_only t = JObj [(''id'', JStr i)]"
    using idv by (simp add: id_only_def t)
  have same: "s\<lparr>doc := Some (JArr (todos[?n := t]))\<rparr> = s"
    using n 0(1) by (simp add: list_update_same_conv store_doc_same)
  have "put_todo s i (JObj []) = (Responded (StatusJson 200 (JObj [(''id'', JStr i)])), s)"
    using updateByIdAndUpdate_found [OF 0 assms(3), of "JObj []"] v
    by (simp add: put_todo_def validateBody_def updateTodo_def sp io same del: validate.simps)
  with v show ?thesis by simp
qed

text \<open>C10 as amended, on the collection of one record.\<close>

theorem put_empty_is_identity_witness:
  "findById one_todo_store ''u1'' = Inr (Some stored_groceries) \<and> distinct_keys stored_groceries
   \<and> writable one_todo_store
   \<and> fst (validate updateTodoSchema (JObj [])) = None
   \<and> put_todo one_todo_store ''u1'' (JObj []) =
       (Responded (StatusJson 200 (JObj [(''id'', JStr ''u1'')])), one_todo_store)"
proof -
  have k: "distinct_keys stored_groceries"
    by (simp add: stored_groceries_def groceries_def)
  have w: "writable one_todo_store" by (simp add: one_todo_store_def)
  from put_empty_is_identity [OF one_todo_found k w] one_todo_found k w show ?thesis by blast
qed

end
